theory Spec2Isabelle
  imports Main
begin

section \<open>Python values, exceptions and output\<close>

text \<open>
  The script \<^verbatim>\<open>stats.py\<close> is embedded function by function. An exception that a
  statement of the script can raise is a value of \<open>error\<close>; \<open>SystemExit c\<close> is
  \<^verbatim>\<open>sys.exit(c)\<close>. \<open>Unsupported\<close> marks a format string outside the fragment of
  Python's format mini-language that is modelled below; no template of the script is
  outside it.
\<close>

datatype error =
    KeyError string
  | IndexError
  | TypeError
  | ValueError
  | ZeroDivisionError
  | OverflowError
  | SystemExit int
  | Unsupported

datatype pyval = PNone | PInt int | PStr string

definition TAB :: char where
  "TAB = CHR 0x09"

definition NL :: char where
  "NL = CHR 0x0A"

subsection \<open>Decimal rendering of integers\<close>

definition digit_char :: "nat \<Rightarrow> char" where
  "digit_char d = ''0123456789'' ! (d mod 10)"

fun show_nat :: "nat \<Rightarrow> string" where
  "show_nat n = (if n < 10 then [digit_char n] else show_nat (n div 10) @ [digit_char (n mod 10)])"

declare show_nat.simps [simp del]

definition show_int :: "int \<Rightarrow> string" where
  "show_int i = (if i < 0 then CHR ''-'' # show_nat (nat (- i)) else show_nat (nat i))"

definition rjust :: "nat \<Rightarrow> string \<Rightarrow> string" where
  "rjust w s = replicate (w - length s) CHR '' '' @ s"

definition zfill :: "nat \<Rightarrow> string \<Rightarrow> string" where
  "zfill w s = replicate (w - length s) CHR ''0'' @ s"

subsection \<open>\<^verbatim>\<open>str.format\<close>\<close>

text \<open>
  The fragment of \<^verbatim>\<open>str.format\<close> the script uses: literal text, the escapes
  \<^verbatim>\<open>{{\<close> and \<^verbatim>\<open>}}\<close>, and replacement fields \<^verbatim>\<open>{}\<close>, \<^verbatim>\<open>{name}\<close>,
  \<^verbatim>\<open>{:d}\<close>, \<^verbatim>\<open>{:Nd}\<close>, on \<^verbatim>\<open>None\<close>, integers and strings. A field
  with an empty name takes the next positional argument (IndexError when there is
  none), a field with an identifier as name takes the keyword argument of that name
  (KeyError when there is none).
\<close>

definition is_digit :: "char \<Rightarrow> bool" where
  "is_digit c = (c \<in> set ''0123456789'')"

definition is_ident_char :: "char \<Rightarrow> bool" where
  "is_ident_char c =
     (c \<in> set ''abcdefghijklmnopqrstuvwxyzABCDEFGHIJKLMNOPQRSTUVWXYZ_0123456789'')"

definition is_identifier :: "string \<Rightarrow> bool" where
  "is_identifier s = (s \<noteq> [] \<and> \<not> is_digit (hd s) \<and> list_all is_ident_char s)"

fun digits_val :: "string \<Rightarrow> nat \<Rightarrow> nat" where
  "digits_val [] acc = acc"
| "digits_val (c # cs) acc =
     digits_val cs (10 * acc + (of_char c - 48))"

definition parse_int_spec :: "string \<Rightarrow> nat option" where
  "parse_int_spec spec =
     (if spec \<noteq> [] \<and> last spec = CHR ''d'' \<and> list_all is_digit (butlast spec)
         \<and> (butlast spec = [] \<or> hd spec \<noteq> CHR ''0'')
      then Some (digits_val (butlast spec) 0) else None)"

definition py_str :: "pyval \<Rightarrow> string" where
  "py_str v = (case v of PNone \<Rightarrow> ''None'' | PInt i \<Rightarrow> show_int i | PStr s \<Rightarrow> s)"

definition render :: "string \<Rightarrow> pyval \<Rightarrow> error + string" where
  "render spec v =
     (if spec = [] then Inr (py_str v)
      else case parse_int_spec spec of
             None \<Rightarrow> Inl Unsupported
           | Some w \<Rightarrow> (case v of PNone \<Rightarrow> Inl TypeError
                                 | PInt i \<Rightarrow> Inr (rjust w (show_int i))
                                 | PStr s \<Rightarrow> Inl ValueError))"

definition format_field ::
  "pyval list \<Rightarrow> (string \<times> pyval) list \<Rightarrow> nat \<Rightarrow> string \<Rightarrow> error + (string \<times> nat)" where
  "format_field args kwargs i field =
     (let name = takeWhile (\<lambda>c. c \<noteq> CHR '':'') field;
          spec = drop (Suc (length name)) field
      in if name = [] then
           (if i < length args
            then map_sum id (\<lambda>s. (s, Suc i)) (render spec (args ! i))
            else Inl IndexError)
         else if is_identifier name then
           (case map_of kwargs name of
              None \<Rightarrow> Inl (KeyError name)
            | Some v \<Rightarrow> map_sum id (\<lambda>s. (s, i)) (render spec v))
         else Inl Unsupported)"

fun format_go ::
  "pyval list \<Rightarrow> (string \<times> pyval) list \<Rightarrow> nat \<Rightarrow> string option \<Rightarrow> string \<Rightarrow> error + string" where
  "format_go args kwargs i None [] = Inr []"
| "format_go args kwargs i (Some field) [] = Inl ValueError"
| "format_go args kwargs i None (c # cs) =
     (if c = CHR ''{'' then
        (case cs of
           c' # cs' \<Rightarrow>
             if c' = CHR ''{'' then map_sum id ((#) c) (format_go args kwargs i None cs')
             else format_go args kwargs i (Some []) cs
         | [] \<Rightarrow> Inl ValueError)
      else if c = CHR ''}'' then
        (case cs of
           c' # cs' \<Rightarrow>
             if c' = CHR ''}'' then map_sum id ((#) c) (format_go args kwargs i None cs')
             else Inl ValueError
         | [] \<Rightarrow> Inl ValueError)
      else map_sum id ((#) c) (format_go args kwargs i None cs))"
| "format_go args kwargs i (Some field) (c # cs) =
     (if c = CHR ''}'' then
        (case format_field args kwargs i field of
           Inl e \<Rightarrow> Inl e
         | Inr (s, i') \<Rightarrow> map_sum id ((@) s) (format_go args kwargs i' None cs))
      else if c = CHR ''{'' then Inl Unsupported
      else format_go args kwargs i (Some (field @ [c])) cs)"

definition format :: "string \<Rightarrow> pyval list \<Rightarrow> (string \<times> pyval) list \<Rightarrow> error + string" where
  "format template args kwargs = format_go args kwargs 0 None template"

definition bind :: "error + 'a \<Rightarrow> ('a \<Rightarrow> error + 'b) \<Rightarrow> error + 'b" where
  "bind r f = (case r of Inl e \<Rightarrow> Inl e | Inr x \<Rightarrow> f x)"

section \<open>Calendar dates\<close>

text \<open>
  \<^verbatim>\<open>datetime.date\<close> as CPython's \<^verbatim>\<open>datetime\<close> module defines it: a date holds
  year, month and day, is ordered as that triple, and is subtracted through its
  proleptic Gregorian ordinal (day 1 is 0001-01-01). A date object has a year from 1 to
  9999 and a month from 1 to 12; index 0 of the month tables is the placeholder CPython
  has there.
\<close>

record date =
  year :: int
  month :: int
  day :: int

definition MAXORDINAL :: int where
  "MAXORDINAL = 3652059"

definition DAYS_IN_MONTH :: "int list" where
  "DAYS_IN_MONTH = [-1, 31, 28, 31, 30, 31, 30, 31, 31, 30, 31, 30, 31]"

definition DAYS_BEFORE_MONTH :: "int list" where
  "DAYS_BEFORE_MONTH = [-1, 0, 31, 59, 90, 120, 151, 181, 212, 243, 273, 304, 334]"

definition is_leap :: "int \<Rightarrow> bool" where
  "is_leap y = (y mod 4 = 0 \<and> (y mod 100 \<noteq> 0 \<or> y mod 400 = 0))"

definition days_before_year :: "int \<Rightarrow> int" where
  "days_before_year y = (let z = y - 1 in z * 365 + z div 4 - z div 100 + z div 400)"

definition days_before_month :: "int \<Rightarrow> int \<Rightarrow> int" where
  "days_before_month y m =
     DAYS_BEFORE_MONTH ! nat m + (if m > 2 \<and> is_leap y then 1 else 0)"

definition toordinal :: "date \<Rightarrow> int" where
  "toordinal d = days_before_year (year d) + days_before_month (year d) (month d) + day d"

definition fromordinal :: "int \<Rightarrow> date" where
  "fromordinal n0 =
     (let n = n0 - 1;
          n400 = n div 146097; n = n mod 146097;
          y = n400 * 400 + 1;
          n100 = n div 36524; n = n mod 36524;
          n4 = n div 1461; n = n mod 1461;
          n1 = n div 365; n = n mod 365;
          y = y + n100 * 100 + n4 * 4 + n1
      in if n1 = 4 \<or> n100 = 4 then \<lparr>year = y - 1, month = 12, day = 31\<rparr>
         else
           let leapyear = (n1 = 3 \<and> (n4 \<noteq> 24 \<or> n100 = 3));
               m = (n + 50) div 32;
               preceding = DAYS_BEFORE_MONTH ! nat m + (if m > 2 \<and> leapyear then 1 else 0);
               m' = (if preceding > n then m - 1 else m);
               preceding' =
                 (if preceding > n
                  then preceding - (DAYS_IN_MONTH ! nat m' + (if m' = 2 \<and> leapyear then 1 else 0))
                  else preceding)
           in \<lparr>year = y, month = m', day = n - preceding' + 1\<rparr>)"

definition date_gt :: "date \<Rightarrow> date \<Rightarrow> bool" where
  "date_gt a b =
     (year a > year b \<or> (year a = year b \<and>
        (month a > month b \<or> (month a = month b \<and> day a > day b))))"

definition date_lt :: "date \<Rightarrow> date \<Rightarrow> bool" where
  "date_lt a b = date_gt b a"

text \<open>\<^verbatim>\<open>a - b\<close> for two dates, read through \<^verbatim>\<open>.days\<close>.\<close>

definition date_diff_days :: "date \<Rightarrow> date \<Rightarrow> int" where
  "date_diff_days a b = toordinal a - toordinal b"

text \<open>
  \<^verbatim>\<open>d - datetime.timedelta(days=n)\<close>: the timedelta constructor refuses more than
  999999999 days, and the subtraction refuses a result outside the ordinals
  1 .. \<open>MAXORDINAL\<close>; both raise OverflowError.
\<close>

definition date_sub_days :: "date \<Rightarrow> int \<Rightarrow> error + date" where
  "date_sub_days d n =
     (if \<bar>n\<bar> > 999999999 then Inl OverflowError
      else let r = toordinal d - n
           in if 0 < r \<and> r \<le> MAXORDINAL then Inr (fromordinal r) else Inl OverflowError)"

text \<open>\<^verbatim>\<open>str(d)\<close>: the ISO form \<^verbatim>\<open>YYYY-MM-DD\<close>.\<close>

definition date_str :: "date \<Rightarrow> string" where
  "date_str d =
     zfill 4 (show_int (year d)) @ ''-'' @ zfill 2 (show_int (month d)) @ ''-''
       @ zfill 2 (show_int (day d))"

section \<open>The API and the state of a run\<close>

text \<open>
  A pull-request object of the API, with the fields the script reads. A timestamp is
  represented by the date that \<^verbatim>\<open>parse(...).date()\<close> extracts from it; \<open>None\<close> is
  the JSON \<^verbatim>\<open>null\<close>, on which \<^verbatim>\<open>parse\<close> raises the TypeError that the record
  constructor catches.
\<close>

record raw_pr =
  r_created_at :: date
  r_html_url :: string
  r_closed_at :: "date option"
  r_merged_at :: "date option"
  r_title :: string
  r_user_url :: string
  r_requested_reviewers :: "string list"

text \<open>
  A user profile as the API returns it: a JSON object, as the list of its fields; a field
  holds a string or \<^verbatim>\<open>null\<close>.
\<close>

type_synonym user_json = "(string \<times> string option) list"

record response =
  status_code :: int
  json :: "raw_pr list"
  links_next :: "string option"

text \<open>The network answers a GET by URL: a page of pull requests, or a user profile.\<close>

record network =
  get_page :: "string \<Rightarrow> response"
  get_user :: "string \<Rightarrow> user_json"

text \<open>
  The state a run changes: the class attribute \<^verbatim>\<open>User.cache\<close>, the GET requests
  issued so far (URL and Authorization header, oldest first), and the lines written to
  the diagnostic stream.
\<close>

record world =
  cache :: "string \<rightharpoonup> user_json"
  requests :: "(string \<times> string) list"
  stderr :: "string list"

definition initial_world :: world where
  "initial_world = \<lparr>cache = Map.empty, requests = [], stderr = []\<rparr>"

definition auth_header :: "string \<Rightarrow> string" where
  \<comment> \<open>\<^verbatim>\<open>'token {}'.format(token)\<close>\<close>
  "auth_header token = ''token '' @ token"

definition requests_get :: "string \<Rightarrow> string \<Rightarrow> world \<Rightarrow> world" where
  "requests_get url token w = w\<lparr>requests := requests w @ [(url, auth_header token)]\<rparr>"

section \<open>User\<close>

record User =
  info :: user_json

definition User_init :: "network \<Rightarrow> string \<Rightarrow> string \<Rightarrow> world \<Rightarrow> User \<times> world" where
  "User_init net userurl token w =
     (case cache w userurl of
        Some i \<Rightarrow> (\<lparr>info = i\<rparr>, w)
      | None \<Rightarrow> (\<lparr>info = get_user net userurl\<rparr>, requests_get userurl token w))"

text \<open>
  \<^verbatim>\<open>__str__\<close>: a missing key is absorbed by the bare \<^verbatim>\<open>except\<close>; a \<^verbatim>\<open>null\<close>
  login is returned as it is, and \<^verbatim>\<open>str\<close> then raises TypeError at the caller.
\<close>

definition falsy_str :: "string option \<Rightarrow> bool" where
  "falsy_str v = (v = None \<or> v = Some [])"

definition User_str :: "User \<Rightarrow> error + string" where
  "User_str u =
     (case map_of (info u) ''name'' of
        None \<Rightarrow> Inr ''None''
      | Some n \<Rightarrow>
          if falsy_str n then
            (case map_of (info u) ''login'' of
               None \<Rightarrow> Inr ''None''
             | Some None \<Rightarrow> Inl TypeError
             | Some (Some l) \<Rightarrow> Inr l)
          else (case n of Some s \<Rightarrow> Inr s | None \<Rightarrow> Inl TypeError))"

section \<open>ScyllaPR\<close>

record ScyllaPR =
  token :: string
  created_at :: date
  url :: string
  closed_at :: "date option"
  merged_at :: "date option"
  title :: string
  user :: User
  reviewers :: "User list"

fun Users_init :: "network \<Rightarrow> string list \<Rightarrow> string \<Rightarrow> world \<Rightarrow> User list \<times> world" where
  "Users_init net [] tok w = ([], w)"
| "Users_init net (x # xs) tok w =
     (let (u, w1) = User_init net x tok w;
          (us, w2) = Users_init net xs tok w1
      in (u # us, w2))"

definition ScyllaPR_init :: "network \<Rightarrow> raw_pr \<Rightarrow> string \<Rightarrow> world \<Rightarrow> ScyllaPR \<times> world" where
  "ScyllaPR_init net j tok w =
     (let (u, w1) = User_init net (r_user_url j) tok w;
          (rs, w2) = Users_init net (r_requested_reviewers j) tok w1
      in (\<lparr>token = tok, created_at = r_created_at j, url = r_html_url j,
           closed_at = r_closed_at j, merged_at = r_merged_at j, title = r_title j,
           user = u, reviewers = rs\<rparr>, w2))"

text \<open>\<^verbatim>\<open>None - date\<close> raises TypeError.\<close>

definition timeToClose :: "ScyllaPR \<Rightarrow> error + int" where
  "timeToClose p =
     (case closed_at p of
        None \<Rightarrow> Inl TypeError
      | Some c \<Rightarrow> Inr (date_diff_days c (created_at p)))"

definition openFor :: "date \<Rightarrow> ScyllaPR \<Rightarrow> int" where
  "openFor today p = date_diff_days today (created_at p)"

definition isOpen :: "ScyllaPR \<Rightarrow> bool" where
  "isOpen p = (closed_at p = None)"

text \<open>
  \<^verbatim>\<open>isAbandoned\<close> returns what \<^verbatim>\<open>self.closed_at and not self.merged_at\<close> evaluates
  to: \<^verbatim>\<open>None\<close> when the closing date is unset, a boolean otherwise.
  \<^verbatim>\<open>isMerged\<close> returns the merge date itself. Callers read both through their truth
  value; a date is always true.
\<close>

definition isAbandoned :: "ScyllaPR \<Rightarrow> bool option" where
  "isAbandoned p = (case closed_at p of None \<Rightarrow> None | Some c \<Rightarrow> Some (merged_at p = None))"

definition isMerged :: "ScyllaPR \<Rightarrow> date option" where
  "isMerged p = merged_at p"

definition truthy_bool :: "bool option \<Rightarrow> bool" where
  "truthy_bool v = (v = Some True)"

definition truthy_date :: "date option \<Rightarrow> bool" where
  "truthy_date v = (v \<noteq> None)"

definition needsAttention :: "date \<Rightarrow> ScyllaPR \<Rightarrow> int \<Rightarrow> error + bool" where
  "needsAttention today p days =
     (if isOpen p
      then bind (date_sub_days today days) (\<lambda>t. Inr (date_gt t (created_at p)))
      else Inr False)"

definition ScyllaPR_str :: "date \<Rightarrow> ScyllaPR \<Rightarrow> error + string" where
  "ScyllaPR_str today p =
     bind (User_str (user p)) (\<lambda>author.
     bind (format (TAB # ''Author      : {}'' @ [NL]) [PStr author] []) (\<lambda>l1.
     bind (format (TAB # ''Title       : {}'' @ [NL]) [PStr (title p)] []) (\<lambda>l2.
     bind (format (TAB # ''URL         : {}'' @ [NL]) [PStr (url p)] []) (\<lambda>l3.
     bind (if isOpen p
           then format (TAB # ''Created  at : {} ({} days ago)'' @ [NL])
                  [PStr (date_str (created_at p)), PInt (openFor today p)] []
           else bind (timeToClose p) (\<lambda>t.
                format (TAB # ''Created  at : {} and Closed at {} ({} after days)'' @ [NL])
                  [PStr (date_str (created_at p)),
                   PStr (case closed_at p of Some c \<Rightarrow> date_str c | None \<Rightarrow> ''None''),
                   PInt t] [])) (\<lambda>l4.
     Inr (l1 @ l2 @ l3 @ l4))))))"

section \<open>getGithubData\<close>

definition read_all :: "raw_pr \<Rightarrow> bool" where
  "read_all dummy = True"

text \<open>
  \<^verbatim>\<open>[ ScyllaPR(x, token) for x in json if add_criteria(x) ]\<close>: the predicate sees the
  API object; a record is constructed only for an accepted one.
\<close>

fun build_records ::
  "network \<Rightarrow> string \<Rightarrow> (raw_pr \<Rightarrow> bool) \<Rightarrow> raw_pr list \<Rightarrow> world \<Rightarrow> ScyllaPR list \<times> world" where
  "build_records net tok add_criteria [] w = ([], w)"
| "build_records net tok add_criteria (x # xs) w =
     (if add_criteria x then
        (let (p, w1) = ScyllaPR_init net x tok w;
             (ps, w2) = build_records net tok add_criteria xs w1
         in (p # ps, w2))
      else build_records net tok add_criteria xs w)"

text \<open>
  The \<^verbatim>\<open>while True\<close> loop, with the list \<^verbatim>\<open>ret\<close> and the current URL as its
  variables. A chain of next-links that never ends makes the loop run forever: the
  value is then \<open>None\<close>.
\<close>

partial_function (option) fetch_loop ::
  "network \<Rightarrow> string \<Rightarrow> (raw_pr \<Rightarrow> bool) \<Rightarrow> string \<Rightarrow> ScyllaPR list \<Rightarrow> world
     \<Rightarrow> ((error + ScyllaPR list) \<times> world) option" where
  "fetch_loop net tok add_criteria u ret w =
     (let w1 = requests_get u tok w;
          resp = get_page net u
      in if status_code resp \<noteq> 200
         then Some (Inl (SystemExit (- 1)),
                    w1\<lparr>stderr := stderr w1 @ [''Can't contact github API'']\<rparr>)
         else
           let (new, w2) = build_records net tok add_criteria (json resp) w1;
               ret' = ret @ new
           in case links_next resp of
                Some u' \<Rightarrow> fetch_loop net tok add_criteria u' ret' w2
              | None \<Rightarrow> Some (Inr ret', w2))"

declare fetch_loop.simps [code]

definition getGithubData ::
  "network \<Rightarrow> string \<Rightarrow> string \<Rightarrow> (raw_pr \<Rightarrow> bool) \<Rightarrow> world
     \<Rightarrow> ((error + ScyllaPR list) \<times> world) option" where
  "getGithubData net u tok add_criteria w = fetch_loop net tok add_criteria u [] w"

section \<open>Printing\<close>

text \<open>
  A procedure that prints is the list of the texts it has passed to \<^verbatim>\<open>print\<close>, in
  order, and the exception that ended it, if any. What was printed before an exception
  stays printed.
\<close>

type_synonym printed = "string list \<times> error option"

definition print :: "error + string \<Rightarrow> printed" where
  "print r = (case r of Inl e \<Rightarrow> ([], Some e) | Inr s \<Rightarrow> ([s], None))"

definition then_run :: "printed \<Rightarrow> printed \<Rightarrow> printed" where
  "then_run a b = (case snd a of Some e \<Rightarrow> a | None \<Rightarrow> (fst a @ fst b, snd b))"

definition skip :: printed where
  "skip = ([], None)"

definition raise :: "error \<Rightarrow> printed" where
  "raise e = ([], Some e)"

section \<open>printHistogram\<close>

definition bins_init :: "(int \<times> int) list" where
  "bins_init =
     [(0, 0), (1, 0), (2, 0), (3, 0), (4, 0), (5, 0), (6, 0), (7, 0),
      (15, 0), (21, 0), (30, 0), (60, 0), (120, 0)]"

definition sorted_keys_init :: "int list" where
  "sorted_keys_init = sort (map fst bins_init)"

text \<open>\<^verbatim>\<open>[ x.timeToClose() for x in closedPR ]\<close>\<close>

fun close_times :: "ScyllaPR list \<Rightarrow> error + int list" where
  "close_times [] = Inr []"
| "close_times (x # xs) =
     bind (timeToClose x) (\<lambda>t. bind (close_times xs) (\<lambda>ts. Inr (t # ts)))"

text \<open>The inner loop: the first key, in ascending order, that \<open>x\<close> does not exceed.\<close>

fun count_in :: "(int \<rightharpoonup> int) \<Rightarrow> int list \<Rightarrow> int \<Rightarrow> error + (int \<rightharpoonup> int)" where
  "count_in bins [] x = Inr bins"
| "count_in bins (k # ks) x =
     (if x \<le> k then
        (case bins k of
           None \<Rightarrow> Inl (KeyError (show_int k))
         | Some c \<Rightarrow> Inr (bins(k \<mapsto> c + 1)))
      else count_in bins ks x)"

fun count_all :: "(int \<rightharpoonup> int) \<Rightarrow> int list \<Rightarrow> int list \<Rightarrow> error + (int \<rightharpoonup> int)" where
  "count_all bins keys [] = Inr bins"
| "count_all bins keys (x # xs) = bind (count_in bins keys x) (\<lambda>b. count_all b keys xs)"

text \<open>
  \<^verbatim>\<open>int(sum(data) / len(data))\<close>: the quotient, truncated toward zero. Python computes
  the quotient in double precision; the model takes the exact quotient.
\<close>

definition average :: "int list \<Rightarrow> error + int" where
  "average data =
     (if length data = 0 then Inl ZeroDivisionError
      else Inr (sgn (sum_list data) * (\<bar>sum_list data\<bar> div int (length data))))"

definition py_max :: "int list \<Rightarrow> error + int" where
  "py_max data = (case data of [] \<Rightarrow> Inl ValueError | x # xs \<Rightarrow> Inr (fold max xs x))"

text \<open>
  \<^verbatim>\<open>while bins[sorted_keys[-1]] == 0: sorted_keys.pop()\<close>: reading the last element of
  an empty list raises IndexError.
\<close>

function trim :: "(int \<rightharpoonup> int) \<Rightarrow> int list \<Rightarrow> error + int list" where
  "trim bins keys =
     (if keys = [] then Inl IndexError
      else case bins (last keys) of
             None \<Rightarrow> Inl (KeyError (show_int (last keys)))
           | Some c \<Rightarrow> if c = 0 then trim bins (butlast keys) else Inr keys)"
  by pat_completeness auto
termination
  by (relation "measure (\<lambda>(bins, keys). length keys)") auto

declare trim.simps [simp del]

fun print_bins :: "(int \<rightharpoonup> int) \<Rightarrow> int list \<Rightarrow> printed" where
  "print_bins bins [] = skip"
| "print_bins bins (k # ks) =
     then_run
       (case bins k of
          None \<Rightarrow> raise (KeyError (show_int k))
        | Some c \<Rightarrow>
            print (format (TAB # TAB # ''{:3d}: {}'') [PInt k, PStr (replicate (nat c) CHR ''@'')] []))
       (print_bins bins ks)"

text \<open>The parameter \<^verbatim>\<open>actor\<close> is never read and is left out.\<close>

definition printHistogram :: "ScyllaPR list \<Rightarrow> string \<Rightarrow> printed" where
  "printHistogram closedPR action =
     (case close_times closedPR of
        Inl e \<Rightarrow> raise e
      | Inr data \<Rightarrow>
     (case count_all (map_of bins_init) sorted_keys_init data of
        Inl e \<Rightarrow> raise e
      | Inr bins \<Rightarrow>
          then_run (print (bind (average data) (\<lambda>a.
                      format (TAB # ''Average time to {}: {:d} days'') [PStr action, PInt a] [])))
         (then_run (print (bind (py_max data) (\<lambda>m.
                      format (TAB # ''Peak time to {}: {:d} days'') [PStr action, PInt m] [])))
         (then_run (print (format (TAB # ''Histogram of {} time: in days'') [PStr action] []))
         (case trim bins sorted_keys_init of
            Inl e \<Rightarrow> raise e
          | Inr keys \<Rightarrow> print_bins bins keys)))))"

section \<open>printStats\<close>

text \<open>
  \<^verbatim>\<open>--period\<close> is an integer or absent, the two closed buckets are lists or
  \<^verbatim>\<open>None\<close>; \<^verbatim>\<open>if days:\<close> and \<^verbatim>\<open>if mergedPR:\<close> read their truth value. The current
  date is the parameter \<open>today\<close>.
\<close>

definition py_int :: "int option \<Rightarrow> pyval" where
  "py_int v = (case v of None \<Rightarrow> PNone | Some d \<Rightarrow> PInt d)"

definition truthy_int :: "int option \<Rightarrow> bool" where
  "truthy_int v = (case v of None \<Rightarrow> False | Some d \<Rightarrow> d \<noteq> 0)"

definition truthy_list :: "'a list option \<Rightarrow> bool" where
  "truthy_list v = (case v of None \<Rightarrow> False | Some xs \<Rightarrow> xs \<noteq> [])"

definition elems :: "'a list option \<Rightarrow> 'a list" where
  "elems v = (case v of None \<Rightarrow> [] | Some xs \<Rightarrow> xs)"

text \<open>\<^verbatim>\<open>[ str(x) for x in openPR if x.needsAttention(attDay) ]\<close>\<close>

fun attention_list :: "date \<Rightarrow> int \<Rightarrow> ScyllaPR list \<Rightarrow> error + string list" where
  "attention_list today attDay [] = Inr []"
| "attention_list today attDay (x # xs) =
     bind (needsAttention today x attDay) (\<lambda>b.
       if b then bind (ScyllaPR_str today x) (\<lambda>s.
                 bind (attention_list today attDay xs) (\<lambda>ss. Inr (s # ss)))
       else attention_list today attDay xs)"

text \<open>
  \<^verbatim>\<open>openPR.sort(key=lambda x: x.openFor(), reverse=True)\<close>: descending, and stable
  (records open equally long keep their order).
\<close>

definition sort_open :: "date \<Rightarrow> ScyllaPR list \<Rightarrow> ScyllaPR list" where
  "sort_open today openPR = sort_key (\<lambda>x. - openFor today x) openPR"

definition print_needs :: "error + string \<Rightarrow> string list \<Rightarrow> printed" where
  \<comment> \<open>the heading, then \<^verbatim>\<open>[ print(x) for x in needsAttention ]\<close>\<close>
  "print_needs heading needs = then_run (print heading) (needs, None)"

definition printStats ::
  "date \<Rightarrow> int option \<Rightarrow> ScyllaPR list \<Rightarrow> ScyllaPR list option \<Rightarrow> ScyllaPR list option \<Rightarrow> printed" where
  "printStats today days openPR abandonedPR mergedPR =
     (case (if truthy_int days
            then format ''for the past {days} days'' [py_int days] []
            else Inr ''For the entire life of the repository'') of
        Inl e \<Rightarrow> raise e
      | Inr period \<Rightarrow>
          then_run
            (if truthy_list mergedPR then
               then_run
                 (print (format (''Merged Pull Requests {period}: {m}'' @ [NL]) []
                           [(''period'', PStr period), (''m'', PInt (int (length (elems mergedPR))))]))
                 (printHistogram (elems mergedPR) ''merge'')
             else skip)
         (then_run
            (if truthy_list abandonedPR then
               then_run
                 (print (format (NL # ''Abandoned Pull Requests {period}: {m}'' @ [NL]) []
                           [(''period'', PStr period), (''m'', PInt (int (length (elems abandonedPR))))]))
                 (printHistogram (elems abandonedPR) ''abandon'')
             else skip)
         (then_run
            (print (format (NL # ''Currently Open Pull Requests: {m}'' @ [NL]) []
                      [(''m'', PInt (int (length openPR)))]))
            (let attDay = 15 in
             case attention_list today attDay (sort_open today openPR) of
               Inl e \<Rightarrow> raise e
             | Inr needs \<Rightarrow>
                 if length needs > 0 then
                   (print_needs
                      (format ''Pull Requests needing attention: (open for more than {} days):''
                         [PInt attDay] [])
                      needs)
                 else skip))))"

section \<open>Page chains and sample data\<close>

text \<open>
  \<open>next_chain net u us\<close>: the pages at \<open>u\<close> and then at \<open>us\<close>, in this order, all
  answer with status 200, each carries a next-link to the following one, and the last
  carries none. \<open>fail_chain net u us\<close>: the same walk, but the last page answers with
  another status.
\<close>

fun next_chain :: "network \<Rightarrow> string \<Rightarrow> string list \<Rightarrow> bool" where
  "next_chain net u [] =
     (status_code (get_page net u) = 200 \<and> links_next (get_page net u) = None)"
| "next_chain net u (v # vs) =
     (status_code (get_page net u) = 200 \<and> links_next (get_page net u) = Some v
      \<and> next_chain net v vs)"

fun fail_chain :: "network \<Rightarrow> string \<Rightarrow> string list \<Rightarrow> bool" where
  "fail_chain net u [] = (status_code (get_page net u) \<noteq> 200)"
| "fail_chain net u (v # vs) =
     (status_code (get_page net u) = 200 \<and> links_next (get_page net u) = Some v
      \<and> fail_chain net v vs)"

definition no_zero_division :: "printed \<Rightarrow> bool" where
  "no_zero_division p = (snd p \<noteq> Some ZeroDivisionError)"

text \<open>Dates, records and a small API used to run the definitions on concrete inputs.\<close>

definition ymd :: "int \<Rightarrow> int \<Rightarrow> int \<Rightarrow> date" where
  "ymd y m d = \<lparr>year = y, month = m, day = d\<rparr>"

definition sample_user :: User where
  "sample_user = \<lparr>info = [(''name'', Some ''Ann''), (''login'', Some ''ann'')]\<rparr>"

definition sample_pr :: "date \<Rightarrow> date option \<Rightarrow> date option \<Rightarrow> ScyllaPR" where
  "sample_pr c cl mg =
     \<lparr>token = ''t'', created_at = c, url = ''https://example.org/pull/1'', closed_at = cl,
      merged_at = mg, title = ''A change'', user = sample_user, reviewers = []\<rparr>"

definition sample_raw :: "string \<Rightarrow> raw_pr" where
  "sample_raw h =
     \<lparr>r_created_at = ymd 2024 1 1, r_html_url = h, r_closed_at = None, r_merged_at = None,
      r_title = ''A change'', r_user_url = ''users/ann'', r_requested_reviewers = []\<rparr>"

text \<open>
  Three pages of 2, 2 and 1 pull requests chained from \<^verbatim>\<open>p1\<close>; a page \<^verbatim>\<open>q1\<close> whose
  next-link leads to a page that answers 404, as every other URL does.
\<close>

definition sample_net :: network where
  "sample_net =
     \<lparr>get_page = (\<lambda>u.
        if u = ''p1'' then \<lparr>status_code = 200, json = [sample_raw ''a'', sample_raw ''b''],
                             links_next = Some ''p2''\<rparr>
        else if u = ''p2'' then \<lparr>status_code = 200, json = [sample_raw ''c'', sample_raw ''d''],
                             links_next = Some ''p3''\<rparr>
        else if u = ''p3'' then \<lparr>status_code = 200, json = [sample_raw ''e''], links_next = None\<rparr>
        else if u = ''q1'' then \<lparr>status_code = 200, json = [sample_raw ''f''],
                             links_next = Some ''q2''\<rparr>
        else \<lparr>status_code = 404, json = [], links_next = None\<rparr>),
      get_user = (\<lambda>u. [(''name'', None), (''login'', Some ''ann'')])\<rparr>"

definition not_page2 :: "raw_pr \<Rightarrow> bool" where
  "not_page2 j = (r_html_url j \<noteq> ''c'' \<and> r_html_url j \<noteq> ''d'')"

section \<open>The histogram as specified\<close>

text \<open>
  The histogram in the words of the specification, to be compared with what
  \<^verbatim>\<open>printHistogram\<close> prints: a close time is counted in the smallest threshold it
  does not exceed; the bins printed are the thresholds in ascending order without the
  trailing run of empty bins; a bin is printed as its threshold, right-aligned in three
  columns, and one mark for each close time counted in it.
\<close>

definition spec_bin_of :: "int \<Rightarrow> int option" where
  "spec_bin_of x = find (\<lambda>k. x \<le> k) sorted_keys_init"

definition spec_bin_count :: "int list \<Rightarrow> int \<Rightarrow> nat" where
  "spec_bin_count data k = length (filter (\<lambda>x. spec_bin_of x = Some k) data)"

definition spec_printed_keys :: "int list \<Rightarrow> int list" where
  "spec_printed_keys data =
     rev (dropWhile (\<lambda>k. spec_bin_count data k = 0) (rev sorted_keys_init))"

definition spec_bin_line :: "int \<Rightarrow> nat \<Rightarrow> string" where
  "spec_bin_line k n = TAB # TAB # rjust 3 (show_int k) @ '': '' @ replicate n CHR ''@''"

section \<open>The user cache\<close>

lemma User_init_cache: "cache (snd (User_init net u tok w)) = cache w"
  by (simp add: User_init_def requests_get_def split: option.splits)

lemma User_init_stderr: "stderr (snd (User_init net u tok w)) = stderr w"
  by (simp add: User_init_def requests_get_def split: option.splits)

lemma User_init_fst:
  "cache w = cache w' \<Longrightarrow> fst (User_init net u tok w) = fst (User_init net u tok w')"
  by (simp add: User_init_def split: option.splits)

text \<open>
  Claim C1 says that resolving the same profile URL twice within one run issues exactly
  one network call, the first resolution populating the cache. The constructor reads
  \<^verbatim>\<open>User.cache\<close> and never writes it: from a state in which the URL is not cached,
  two resolutions issue two GET requests for it, and the cache is what it was.
\<close>

theorem User_init_twice_requests:
  "cache w u = None \<Longrightarrow>
   requests (snd (User_init net u tok (snd (User_init net u tok w))))
     = requests w @ [(u, auth_header tok), (u, auth_header tok)]
   \<and> cache (snd (User_init net u tok (snd (User_init net u tok w)))) = cache w"
  by (simp add: User_init_def requests_get_def)

theorem User_init_twice_requests_witness:
  "requests (snd (User_init sample_net ''users/ann'' ''t''
       (snd (User_init sample_net ''users/ann'' ''t'' initial_world))))
     = [(''users/ann'', ''token t''), (''users/ann'', ''token t'')]
   \<and> cache (snd (User_init sample_net ''users/ann'' ''t''
       (snd (User_init sample_net ''users/ann'' ''t'' initial_world)))) ''users/ann'' = None"
proof -
  have h: "cache initial_world ''users/ann'' = None"
    by (simp add: initial_world_def)
  show ?thesis
    using User_init_twice_requests [OF h, of sample_net "''t''"]
    by (simp add: initial_world_def auth_header_def)
qed

section \<open>Status predicates of a record\<close>

text \<open>
  Claim C4, as amended: for every record, merged excludes abandoned and abandoned
  excludes open; merged excludes open for a record whose merge date is set only when its
  closing date is set. The constructor takes the two dates from the API object
  independently, so a record can hold a merge date and no closing date.
\<close>

theorem status_predicates_exclusive:
  "(truthy_date (isMerged p) \<longrightarrow> \<not> truthy_bool (isAbandoned p))
   \<and> (truthy_bool (isAbandoned p) \<longrightarrow> \<not> isOpen p)
   \<and> ((closed_at p = None \<longrightarrow> merged_at p = None)
        \<longrightarrow> truthy_date (isMerged p) \<longrightarrow> \<not> isOpen p)"
  by (auto simp: truthy_date_def truthy_bool_def isMerged_def isAbandoned_def isOpen_def
      split: option.splits)

theorem status_predicates_exclusive_witness:
  "truthy_date (isMerged (sample_pr (ymd 2024 1 1) (Some (ymd 2024 1 4)) (Some (ymd 2024 1 4))))
   \<and> \<not> truthy_bool (isAbandoned (sample_pr (ymd 2024 1 1) (Some (ymd 2024 1 4)) (Some (ymd 2024 1 4))))
   \<and> \<not> isOpen (sample_pr (ymd 2024 1 1) (Some (ymd 2024 1 4)) (Some (ymd 2024 1 4)))
   \<and> truthy_bool (isAbandoned (sample_pr (ymd 2024 1 1) (Some (ymd 2024 1 4)) None))
   \<and> \<not> isOpen (sample_pr (ymd 2024 1 1) (Some (ymd 2024 1 4)) None)"
  using status_predicates_exclusive
          [of "sample_pr (ymd 2024 1 1) (Some (ymd 2024 1 4)) (Some (ymd 2024 1 4))"]
        status_predicates_exclusive
          [of "sample_pr (ymd 2024 1 1) (Some (ymd 2024 1 4)) None"]
  by (simp add: sample_pr_def truthy_date_def truthy_bool_def isMerged_def isAbandoned_def)

text \<open>
  Claim C4 as stated fails: a record with a merge date and no closing date is merged and
  open at once.
\<close>

theorem merged_and_open:
  "truthy_date (isMerged (sample_pr (ymd 2024 1 1) None (Some (ymd 2024 1 4))))
   \<and> isOpen (sample_pr (ymd 2024 1 1) None (Some (ymd 2024 1 4)))"
  by (simp add: sample_pr_def truthy_date_def isMerged_def isOpen_def)






section \<open>Formatting\<close>

lemmas format_defs = format_def format_field_def is_identifier_def is_digit_def
  is_ident_char_def render_def parse_int_spec_def py_str_def rjust_def TAB_def NL_def

lemma format_average:
  "format (TAB # ''Average time to {}: {:d} days'') [PStr action, PInt a] []
     = Inr (TAB # ''Average time to '' @ action @ '': '' @ show_int a @ '' days'')"
  by (simp add: format_defs)

lemma format_peak:
  "format (TAB # ''Peak time to {}: {:d} days'') [PStr action, PInt a] []
     = Inr (TAB # ''Peak time to '' @ action @ '': '' @ show_int a @ '' days'')"
  by (simp add: format_defs)

lemma format_heading:
  "format (TAB # ''Histogram of {} time: in days'') [PStr action] []
     = Inr (TAB # ''Histogram of '' @ action @ '' time: in days'')"
  by (simp add: format_defs)

lemma format_bin:
  "format (TAB # TAB # ''{:3d}: {}'') [PInt k, PStr s] []
     = Inr (TAB # TAB # rjust 3 (show_int k) @ '': '' @ s)"
  by (simp add: format_def format_field_def is_identifier_def is_digit_def is_ident_char_def
      render_def parse_int_spec_def py_str_def TAB_def NL_def)

lemma format_merged:
  "format (''Merged Pull Requests {period}: {m}'' @ [NL]) []
       [(''period'', PStr period), (''m'', PInt m)]
     = Inr (''Merged Pull Requests '' @ period @ '': '' @ show_int m @ [NL])"
  by (simp add: format_defs)

lemma format_open:
  "format (NL # ''Currently Open Pull Requests: {m}'' @ [NL]) [] [(''m'', PInt m)]
     = Inr (NL # ''Currently Open Pull Requests: '' @ show_int m @ [NL])"
  by (simp add: format_defs)

lemma format_period: "format ''for the past {days} days'' args [] = Inl (KeyError ''days'')"
  by (simp add: format_def format_field_def is_identifier_def is_digit_def is_ident_char_def)

lemma show_int_digit: "0 \<le> i \<Longrightarrow> i < 10 \<Longrightarrow> show_int i = [digit_char (nat i)]"
  by (simp add: show_int_def show_nat.simps)

text \<open>No format raises ZeroDivisionError.\<close>

lemma render_not_zde: "render spec v \<noteq> Inl ZeroDivisionError"
  by (auto simp: render_def split: option.splits pyval.splits)

lemma map_sum_id_not: "r \<noteq> Inl e \<Longrightarrow> map_sum id f r \<noteq> Inl e"
  by (cases r) auto

lemma format_field_not_zde: "format_field args kw i f \<noteq> Inl ZeroDivisionError"
  unfolding format_field_def Let_def
  by (simp add: map_sum_id_not render_not_zde split: option.splits)

lemma format_go_not_zde: "format_go args kw i st t \<noteq> Inl ZeroDivisionError"
proof (induction args kw i st t rule: format_go.induct)
  case (1 args kwargs i)
  show ?case by simp
next
  case (2 args kwargs i field)
  show ?case by simp
next
  case (3 args kwargs i c cs)
  then show ?case
    by (subst format_go.simps(3))
       (auto simp del: format_go.simps simp: map_sum_id_not split: list.splits)
next
  case (4 args kwargs i field c cs)
  then show ?case
    using format_field_not_zde [of args kwargs i field]
    by (subst format_go.simps(4))
       (auto simp del: format_go.simps simp: map_sum_id_not split: sum.splits)
qed

lemma format_not_zde: "format t args kw \<noteq> Inl ZeroDivisionError"
  by (simp add: format_def format_go_not_zde)

section \<open>The histogram\<close>

lemma sorted_keys_init_eq: "sorted_keys_init = [0, 1, 2, 3, 4, 5, 6, 7, 15, 21, 30, 60, 120]"
  by (simp add: sorted_keys_init_def bins_init_def)

lemma trim_untouched: "trim (map_of bins_init) sorted_keys_init = Inl IndexError"
  by (simp add: sorted_keys_init_eq bins_init_def trim.simps)

lemma count_in_beyond: "\<forall>k\<in>set keys. k < x \<Longrightarrow> count_in bins keys x = Inr bins"
  by (induction keys) auto

lemma count_all_beyond:
  "\<forall>x\<in>set xs. \<forall>k\<in>set keys. k < x \<Longrightarrow> count_all bins keys xs = Inr bins"
  by (induction xs) (auto simp: count_in_beyond bind_def)

lemma close_times_all:
  "\<forall>p\<in>set ps. \<exists>t. timeToClose p = Inr t \<and> P t
   \<Longrightarrow> \<exists>data. close_times ps = Inr data \<and> length data = length ps \<and> (\<forall>t\<in>set data. P t)"
  by (induction ps) (auto simp: bind_def)

lemma close_times_length: "close_times ps = Inr data \<Longrightarrow> length data = length ps"
  by (induction ps arbitrary: data) (auto simp: bind_def split: sum.splits)

lemma printHistogram_011:
  assumes "close_times closedPR = Inr [0, 1, 1]"
  shows "printHistogram closedPR action =
     ([TAB # ''Average time to '' @ action @ '': 0 days'',
       TAB # ''Peak time to '' @ action @ '': 1 days'',
       TAB # ''Histogram of '' @ action @ '' time: in days'',
       TAB # TAB # ''  0: @'',
       TAB # TAB # ''  1: @@''], None)"
proof -
  have cnt: "count_all (map_of bins_init) sorted_keys_init [0, 1, 1]
     = Inr ((map_of bins_init)(0 \<mapsto> 1, 1 \<mapsto> 2))"
    by (simp add: sorted_keys_init_eq bins_init_def bind_def)
  have tr: "trim ((map_of bins_init)(0 \<mapsto> 1, 1 \<mapsto> 2)) sorted_keys_init = Inr [0, 1]"
    by (simp add: sorted_keys_init_eq bins_init_def trim.simps)
  show ?thesis
    unfolding printHistogram_def assms sum.case cnt tr
    by (simp add: average_def py_max_def bind_def format_average format_peak format_heading
        format_bin print_def then_run_def skip_def raise_def show_int_digit digit_char_def
        rjust_def numeral_2_eq_2)
qed

lemma printHistogram_3:
  assumes "close_times closedPR = Inr [3]"
  shows "printHistogram closedPR action =
     ([TAB # ''Average time to '' @ action @ '': 3 days'',
       TAB # ''Peak time to '' @ action @ '': 3 days'',
       TAB # ''Histogram of '' @ action @ '' time: in days'',
       TAB # TAB # ''  0: '',
       TAB # TAB # ''  1: '',
       TAB # TAB # ''  2: '',
       TAB # TAB # ''  3: @''], None)"
proof -
  have cnt: "count_all (map_of bins_init) sorted_keys_init [3]
     = Inr ((map_of bins_init)(3 \<mapsto> 1))"
    by (simp add: sorted_keys_init_eq bins_init_def bind_def)
  have tr: "trim ((map_of bins_init)(3 \<mapsto> 1)) sorted_keys_init = Inr [0, 1, 2, 3]"
    by (simp add: sorted_keys_init_eq bins_init_def trim.simps)
  show ?thesis
    unfolding printHistogram_def assms sum.case cnt tr
    by (simp add: average_def py_max_def bind_def format_average format_peak format_heading
        format_bin print_def then_run_def skip_def raise_def show_int_digit digit_char_def
        rjust_def bins_init_def numeral_2_eq_2)
qed

lemma count_in_spec:
  assumes "\<forall>k\<in>S. bins k = Some (f k)" and "set keys \<subseteq> S"
  shows "\<exists>bins'. count_in bins keys x = Inr bins'
           \<and> (\<forall>k\<in>S. bins' k
                  = Some (f k + (if find (\<lambda>k'. x \<le> k') keys = Some k then 1 else 0)))"
  using assms by (induction keys) auto

lemma count_all_spec:
  assumes "\<forall>k\<in>S. bins k = Some (f k)" and "set keys \<subseteq> S"
  shows "\<exists>bins'. count_all bins keys data = Inr bins'
           \<and> (\<forall>k\<in>S. bins' k = Some (f k +
                  int (length (filter (\<lambda>x. find (\<lambda>k'. x \<le> k') keys = Some k) data))))"
  using assms(1)
proof (induction data arbitrary: bins f)
  case Nil
  then show ?case by simp
next
  case (Cons x xs)
  from count_in_spec [OF Cons.prems assms(2), of x] obtain b1 where
    b1: "count_in bins keys x = Inr b1"
    and f1: "\<forall>k\<in>S. b1 k
               = Some (f k + (if find (\<lambda>k'. x \<le> k') keys = Some k then 1 else 0))"
    by blast
  from Cons.IH [OF f1] obtain b2 where
    b2: "count_all b1 keys xs = Inr b2"
    and f2: "\<forall>k\<in>S. b2 k
               = Some (f k + (if find (\<lambda>k'. x \<le> k') keys = Some k then 1 else 0) +
                  int (length (filter (\<lambda>x. find (\<lambda>k'. x \<le> k') keys = Some k) xs)))"
    by blast
  show ?case
    using b1 b2 f2 by (auto simp: bind_def)
qed

text \<open>
  The trimming loop, on any bins and keys: when some key has a count other than zero,
  it removes the trailing run of keys with count zero, and nothing else.
\<close>

lemma trim_spec:
  assumes "\<forall>k\<in>set keys. \<exists>c. bins k = Some c" and "\<exists>k\<in>set keys. bins k \<noteq> Some 0"
  shows "trim bins keys = Inr (rev (dropWhile (\<lambda>k. bins k = Some 0) (rev keys)))"
  using assms
proof (induction keys rule: rev_induct)
  case Nil
  then show ?case by simp
next
  case (snoc x xs)
  from snoc.prems(1) obtain c where c: "bins x = Some c" by auto
  show ?case
  proof (cases "c = 0")
    case True
    with c snoc.prems
    have "\<forall>k\<in>set xs. \<exists>c. bins k = Some c" "\<exists>k\<in>set xs. bins k \<noteq> Some 0"
      by auto
    from snoc.IH [OF this] c True show ?thesis
      by (subst trim.simps) simp
  next
    case False
    with c show ?thesis
      by (subst trim.simps) simp
  qed
qed

lemma print_bins_spec:
  assumes "\<forall>k\<in>set ks. bins k = Some (int (c k))"
  shows "print_bins bins ks = (map (\<lambda>k. spec_bin_line k (c k)) ks, None)"
  using assms
  by (induction ks)
     (simp_all add: skip_def then_run_def print_def format_bin spec_bin_line_def)

lemma bins_init_zero: "\<forall>k\<in>set sorted_keys_init. map_of bins_init k = Some (0::int)"
  by (simp add: sorted_keys_init_eq bins_init_def)

lemma spec_bin_of_some: "x \<le> 120 \<Longrightarrow> \<exists>k\<in>set sorted_keys_init. spec_bin_of x = Some k"
proof -
  assume x: "x \<le> 120"
  have "120 \<in> set sorted_keys_init"
    by (simp add: sorted_keys_init_eq)
  with x obtain k where k: "find (\<lambda>k. x \<le> k) sorted_keys_init = Some k"
    by (cases "find (\<lambda>k. x \<le> k) sorted_keys_init") (auto simp: find_None_iff)
  then have "k \<in> set sorted_keys_init"
    by (auto simp: find_Some_iff)
  with k show ?thesis by (auto simp: spec_bin_of_def)
qed

lemma printHistogram_general:
  assumes d: "close_times closedPR = Inr data" and small: "\<exists>x\<in>set data. x \<le> 120"
  shows "\<exists>a m. average data = Inr a \<and> py_max data = Inr m \<and>
     printHistogram closedPR action =
       ([TAB # ''Average time to '' @ action @ '': '' @ show_int a @ '' days'',
         TAB # ''Peak time to '' @ action @ '': '' @ show_int m @ '' days'',
         TAB # ''Histogram of '' @ action @ '' time: in days'']
        @ map (\<lambda>k. spec_bin_line k (spec_bin_count data k)) (spec_printed_keys data), None)"
proof -
  from small have dne: "data \<noteq> []" by auto
  then obtain a where av: "average data = Inr a"
    by (auto simp: average_def)
  from dne obtain m where mx: "py_max data = Inr m"
    by (cases data) (auto simp: py_max_def)
  from count_all_spec [OF bins_init_zero subset_refl, of data] obtain bins where
    cnt: "count_all (map_of bins_init) sorted_keys_init data = Inr bins"
    and b: "\<forall>k\<in>set sorted_keys_init. bins k = Some (int (spec_bin_count data k))"
    by (auto simp: spec_bin_count_def spec_bin_of_def)
  from small obtain x where x: "x \<in> set data" "x \<le> 120" by blast
  from spec_bin_of_some [OF x(2)] obtain k where
    k: "k \<in> set sorted_keys_init" "spec_bin_of x = Some k" by blast
  with x(1) have "spec_bin_count data k \<noteq> 0"
    by (auto simp: spec_bin_count_def filter_empty_conv)
  with k(1) b have nz: "\<exists>k\<in>set sorted_keys_init. bins k \<noteq> Some 0" by auto
  from b have pres: "\<forall>k\<in>set sorted_keys_init. \<exists>c. bins k = Some c" by auto
  have dw: "dropWhile (\<lambda>k. bins k = Some 0) (rev sorted_keys_init)
          = dropWhile (\<lambda>k. spec_bin_count data k = 0) (rev sorted_keys_init)"
    by (rule dropWhile_cong) (use b in auto)
  have tr: "trim bins sorted_keys_init = Inr (spec_printed_keys data)"
    using trim_spec [OF pres nz] by (simp add: dw spec_printed_keys_def)
  have sub: "set (spec_printed_keys data) \<subseteq> set sorted_keys_init"
    by (auto simp: spec_printed_keys_def dest: set_dropWhileD)
  have pb: "print_bins bins (spec_printed_keys data)
          = (map (\<lambda>k. spec_bin_line k (spec_bin_count data k)) (spec_printed_keys data), None)"
    by (rule print_bins_spec) (use b sub in auto)
  have "printHistogram closedPR action =
       ([TAB # ''Average time to '' @ action @ '': '' @ show_int a @ '' days'',
         TAB # ''Peak time to '' @ action @ '': '' @ show_int m @ '' days'',
         TAB # ''Histogram of '' @ action @ '' time: in days'']
        @ map (\<lambda>k. spec_bin_line k (spec_bin_count data k)) (spec_printed_keys data), None)"
    unfolding printHistogram_def d sum.case cnt tr pb av mx
    by (simp add: bind_def format_average format_peak format_heading print_def then_run_def)
  with av mx show ?thesis by blast
qed

lemma spec_printed_keys_20: "spec_printed_keys [20] = [0, 1, 2, 3, 4, 5, 6, 7, 15, 21]"
  by (simp add: spec_printed_keys_def spec_bin_count_def spec_bin_of_def sorted_keys_init_eq)

text \<open>
  Claim C6: the printed histogram trims trailing empty bins from the largest threshold
  downward. For every sequence of close times of which one at least is no more than 120
  days, \<^verbatim>\<open>printHistogram\<close> prints the average, the peak and the heading, and then
  one line for each threshold in ascending order up to the last non-empty bin, with
  the marks of its bin: the trailing run of empty bins is left out and nothing else
  is. For the close times 0, 1, 1 these are the lines of bins 0 and 1: none of the bins
  2, 3, 4, 5, 6, 7, 15, 21, 30, 60, 120 is printed.
\<close>

theorem printHistogram_trims_trailing:
  "(close_times closedPR = Inr data \<longrightarrow> (\<exists>x\<in>set data. x \<le> 120) \<longrightarrow>
      (\<exists>a m. average data = Inr a \<and> py_max data = Inr m \<and>
         printHistogram closedPR action =
           ([TAB # ''Average time to '' @ action @ '': '' @ show_int a @ '' days'',
             TAB # ''Peak time to '' @ action @ '': '' @ show_int m @ '' days'',
             TAB # ''Histogram of '' @ action @ '' time: in days'']
            @ map (\<lambda>k. spec_bin_line k (spec_bin_count data k)) (spec_printed_keys data),
            None)))
   \<and> (close_times closedPR = Inr [0, 1, 1] \<longrightarrow>
        printHistogram closedPR action =
          ([TAB # ''Average time to '' @ action @ '': 0 days'',
            TAB # ''Peak time to '' @ action @ '': 1 days'',
            TAB # ''Histogram of '' @ action @ '' time: in days'',
            TAB # TAB # ''  0: @'',
            TAB # TAB # ''  1: @@''], None))"
  using printHistogram_general [of closedPR data action] printHistogram_011 [of closedPR action]
  by blast

lemma diff_same_day: "date_diff_days (ymd 2024 1 1) (ymd 2024 1 1) = 0"
  by (simp add: date_diff_days_def)

lemma diff_one_day: "date_diff_days (ymd 2024 1 2) (ymd 2024 1 1) = 1"
  by (simp add: date_diff_days_def toordinal_def ymd_def)

lemma diff_three_days: "date_diff_days (ymd 2024 1 4) (ymd 2024 1 1) = 3"
  by (simp add: date_diff_days_def toordinal_def ymd_def)

lemma diff_368_days: "date_diff_days (ymd 2024 1 4) (ymd 2023 1 1) = 368"
  by (simp add: date_diff_days_def toordinal_def ymd_def days_before_year_def
      days_before_month_def DAYS_BEFORE_MONTH_def)

lemma diff_20_days: "date_diff_days (ymd 2024 1 21) (ymd 2024 1 1) = 20"
  by (simp add: date_diff_days_def toordinal_def ymd_def)

lemma show_int_20: "show_int 20 = ''20''"
  by code_simp

theorem printHistogram_trims_trailing_witness:
  "printHistogram
     [sample_pr (ymd 2024 1 1) (Some (ymd 2024 1 1)) (Some (ymd 2024 1 1)),
      sample_pr (ymd 2024 1 1) (Some (ymd 2024 1 2)) (Some (ymd 2024 1 2)),
      sample_pr (ymd 2024 1 1) (Some (ymd 2024 1 2)) None] ''abandon'' =
     ([TAB # ''Average time to abandon: 0 days'',
       TAB # ''Peak time to abandon: 1 days'',
       TAB # ''Histogram of abandon time: in days'',
       TAB # TAB # ''  0: @'',
       TAB # TAB # ''  1: @@''], None)
   \<and> printHistogram
     [sample_pr (ymd 2024 1 1) (Some (ymd 2024 1 21)) (Some (ymd 2024 1 21))] ''merge'' =
     ([TAB # ''Average time to merge: 20 days'',
       TAB # ''Peak time to merge: 20 days'',
       TAB # ''Histogram of merge time: in days'',
       TAB # TAB # ''  0: '',
       TAB # TAB # ''  1: '',
       TAB # TAB # ''  2: '',
       TAB # TAB # ''  3: '',
       TAB # TAB # ''  4: '',
       TAB # TAB # ''  5: '',
       TAB # TAB # ''  6: '',
       TAB # TAB # ''  7: '',
       TAB # TAB # '' 15: '',
       TAB # TAB # '' 21: @''], None)"
proof -
  have h: "close_times
     [sample_pr (ymd 2024 1 1) (Some (ymd 2024 1 1)) (Some (ymd 2024 1 1)),
      sample_pr (ymd 2024 1 1) (Some (ymd 2024 1 2)) (Some (ymd 2024 1 2)),
      sample_pr (ymd 2024 1 1) (Some (ymd 2024 1 2)) None] = Inr [0, 1, 1]"
    by (simp add: timeToClose_def sample_pr_def bind_def diff_same_day diff_one_day)
  have g: "close_times
     [sample_pr (ymd 2024 1 1) (Some (ymd 2024 1 21)) (Some (ymd 2024 1 21))] = Inr [20]"
    by (simp add: timeToClose_def sample_pr_def bind_def diff_20_days)
  have s: "\<exists>x\<in>set [20 :: int]. x \<le> 120"
    by simp
  have av: "average [20] = Inr 20" and mx: "py_max [20] = Inr 20"
    by (simp_all add: average_def py_max_def)
  have cnt: "spec_bin_count [20] 21 = 1" "\<And>k. k \<noteq> 21 \<Longrightarrow> spec_bin_count [20] k = 0"
    by (simp_all add: spec_bin_count_def spec_bin_of_def sorted_keys_init_eq)
  have first: "printHistogram
     [sample_pr (ymd 2024 1 1) (Some (ymd 2024 1 1)) (Some (ymd 2024 1 1)),
      sample_pr (ymd 2024 1 1) (Some (ymd 2024 1 2)) (Some (ymd 2024 1 2)),
      sample_pr (ymd 2024 1 1) (Some (ymd 2024 1 2)) None] ''abandon'' =
     ([TAB # ''Average time to abandon: 0 days'',
       TAB # ''Peak time to abandon: 1 days'',
       TAB # ''Histogram of abandon time: in days'',
       TAB # TAB # ''  0: @'',
       TAB # TAB # ''  1: @@''], None)"
    using printHistogram_trims_trailing [THEN conjunct2, rule_format, OF h, of "''abandon''"]
    by simp
  have second: "printHistogram
     [sample_pr (ymd 2024 1 1) (Some (ymd 2024 1 21)) (Some (ymd 2024 1 21))] ''merge'' =
     ([TAB # ''Average time to merge: 20 days'',
       TAB # ''Peak time to merge: 20 days'',
       TAB # ''Histogram of merge time: in days'']
      @ map (\<lambda>k. spec_bin_line k (spec_bin_count [20] k)) (spec_printed_keys [20]), None)"
    using printHistogram_trims_trailing [THEN conjunct1, rule_format, OF g s, of "''merge''"]
    by (simp add: av mx show_int_20)
  show ?thesis
    unfolding first second spec_printed_keys_20
    by (simp add: cnt spec_bin_line_def rjust_def show_int_digit digit_char_def show_int_20
        show_int_def show_nat.simps numeral_2_eq_2)
qed

lemma printHistogram_beyond:
  assumes ne: "closedPR \<noteq> []"
    and big: "\<forall>p\<in>set closedPR. \<exists>t. timeToClose p = Inr t \<and> 120 < t"
  shows "snd (printHistogram closedPR action) = Some IndexError
         \<and> length (fst (printHistogram closedPR action)) = 3"
proof -
  from close_times_all [OF big] obtain data where d: "close_times closedPR = Inr data"
    and len: "length data = length closedPR" and all: "\<forall>t\<in>set data. 120 < t"
    by blast
  from ne len have dne: "data \<noteq> []" by auto
  have cnt: "count_all (map_of bins_init) sorted_keys_init data = Inr (map_of bins_init)"
    by (rule count_all_beyond) (use all in \<open>auto simp: sorted_keys_init_eq\<close>)
  from dne obtain a where av: "average data = Inr a"
    by (auto simp: average_def)
  from dne obtain m where mx: "py_max data = Inr m"
    by (cases data) (auto simp: py_max_def)
  show ?thesis
    by (simp add: printHistogram_def d cnt av mx bind_def format_average format_peak
        format_heading trim_untouched print_def then_run_def raise_def)
qed

text \<open>
  Claim C10: on a non-empty sequence of records that all took more than 120 days to
  close, no bin is counted up, the trimming loop pops every key and then reads the last
  element of the empty key list: \<^verbatim>\<open>printHistogram\<close> ends in IndexError, after it
  has printed the average, the peak and the heading.
\<close>

theorem printHistogram_all_beyond_IndexError:
  "closedPR \<noteq> [] \<Longrightarrow>
   \<forall>p\<in>set closedPR. \<exists>t. timeToClose p = Inr t \<and> 120 < t \<Longrightarrow>
   snd (printHistogram closedPR action) = Some IndexError
   \<and> length (fst (printHistogram closedPR action)) = 3"
  by (rule printHistogram_beyond)

theorem printHistogram_all_beyond_IndexError_witness:
  "timeToClose (sample_pr (ymd 2023 1 1) (Some (ymd 2024 1 4)) (Some (ymd 2024 1 4))) = Inr 368
   \<and> snd (printHistogram [sample_pr (ymd 2023 1 1) (Some (ymd 2024 1 4)) (Some (ymd 2024 1 4))]
            ''merge'') = Some IndexError
   \<and> length (fst (printHistogram
            [sample_pr (ymd 2023 1 1) (Some (ymd 2024 1 4)) (Some (ymd 2024 1 4))] ''merge'')) = 3"
proof -
  have t: "timeToClose (sample_pr (ymd 2023 1 1) (Some (ymd 2024 1 4)) (Some (ymd 2024 1 4)))
           = Inr 368"
    by (simp add: timeToClose_def sample_pr_def diff_368_days)
  have ne: "[sample_pr (ymd 2023 1 1) (Some (ymd 2024 1 4)) (Some (ymd 2024 1 4))] \<noteq> []"
    by simp
  have big: "\<forall>p\<in>set [sample_pr (ymd 2023 1 1) (Some (ymd 2024 1 4)) (Some (ymd 2024 1 4))].
               \<exists>t. timeToClose p = Inr t \<and> 120 < t"
    by (simp add: t)
  show ?thesis
    using printHistogram_all_beyond_IndexError [OF ne big, of "''merge''"] t by simp
qed


section \<open>The report\<close>

lemma printStats_no_period:
  assumes "created_at p = ymd 2024 1 1" and "closed_at p = Some (ymd 2024 1 4)"
    and "\<not> truthy_int days" and "\<not> truthy_list abandonedPR"
  shows "printStats today days [] abandonedPR (Some [p]) =
     ([''Merged Pull Requests For the entire life of the repository: 1'' @ [NL],
       TAB # ''Average time to merge: 3 days'',
       TAB # ''Peak time to merge: 3 days'',
       TAB # ''Histogram of merge time: in days'',
       TAB # TAB # ''  0: '',
       TAB # TAB # ''  1: '',
       TAB # TAB # ''  2: '',
       TAB # TAB # ''  3: @'',
       NL # ''Currently Open Pull Requests: 0'' @ [NL]], None)"
proof -
  have ct: "close_times [p] = Inr [3]"
    by (simp add: timeToClose_def assms diff_three_days bind_def)
  have tl: "truthy_list (Some [p])" "elems (Some [p]) = [p]"
    by (simp_all add: truthy_list_def elems_def)
  show ?thesis
    unfolding printStats_def format_merged format_open
    by (simp add: assms tl printHistogram_3 [OF ct] print_def then_run_def skip_def
        sort_open_def show_int_digit digit_char_def)
qed

text \<open>
  Claim C2, as amended: for the single merged pull request created on 2024-01-01 and
  closed on 2024-01-04, and no period given, the report shows a merged count of 1 and a
  histogram whose single mark is in bin 3, the time to close being 3 days; the bins 0, 1
  and 2 are printed empty and no bin above 3 is printed.
\<close>

theorem printStats_single_merged_bin3:
  "created_at p = ymd 2024 1 1 \<Longrightarrow> closed_at p = Some (ymd 2024 1 4) \<Longrightarrow>
   \<not> truthy_int days \<Longrightarrow> \<not> truthy_list abandonedPR \<Longrightarrow>
   printStats today days [] abandonedPR (Some [p]) =
     ([''Merged Pull Requests For the entire life of the repository: 1'' @ [NL],
       TAB # ''Average time to merge: 3 days'',
       TAB # ''Peak time to merge: 3 days'',
       TAB # ''Histogram of merge time: in days'',
       TAB # TAB # ''  0: '',
       TAB # TAB # ''  1: '',
       TAB # TAB # ''  2: '',
       TAB # TAB # ''  3: @'',
       NL # ''Currently Open Pull Requests: 0'' @ [NL]], None)"
  by (rule printStats_no_period)

theorem printStats_single_merged_bin3_witness:
  "printStats (ymd 2024 3 1) None []
       (Some []) (Some [sample_pr (ymd 2024 1 1) (Some (ymd 2024 1 4)) (Some (ymd 2024 1 4))]) =
     ([''Merged Pull Requests For the entire life of the repository: 1'' @ [NL],
       TAB # ''Average time to merge: 3 days'',
       TAB # ''Peak time to merge: 3 days'',
       TAB # ''Histogram of merge time: in days'',
       TAB # TAB # ''  0: '',
       TAB # TAB # ''  1: '',
       TAB # TAB # ''  2: '',
       TAB # TAB # ''  3: @'',
       NL # ''Currently Open Pull Requests: 0'' @ [NL]], None)"
proof -
  have c: "created_at (sample_pr (ymd 2024 1 1) (Some (ymd 2024 1 4)) (Some (ymd 2024 1 4)))
           = ymd 2024 1 1"
    and d: "closed_at (sample_pr (ymd 2024 1 1) (Some (ymd 2024 1 4)) (Some (ymd 2024 1 4)))
           = Some (ymd 2024 1 4)"
    by (simp_all add: sample_pr_def)
  have n: "\<not> truthy_int None" and a: "\<not> truthy_list (Some ([] :: ScyllaPR list))"
    by (simp_all add: truthy_int_def truthy_list_def)
  show ?thesis
    using printStats_single_merged_bin3 [OF c d n a, of "ymd 2024 3 1"] by simp
qed

text \<open>
  Claim C2 as stated fails: the time to close is 3 days, the mark is printed in bin 3,
  and the report has no line for bin 4.
\<close>

theorem single_merged_not_bin4:
  "timeToClose (sample_pr (ymd 2024 1 1) (Some (ymd 2024 1 4)) (Some (ymd 2024 1 4))) = Inr 3
   \<and> TAB # TAB # ''  3: @'' \<in> set (fst (printStats (ymd 2024 3 1) None [] (Some [])
         (Some [sample_pr (ymd 2024 1 1) (Some (ymd 2024 1 4)) (Some (ymd 2024 1 4))])))
   \<and> TAB # TAB # ''  4: @'' \<notin> set (fst (printStats (ymd 2024 3 1) None [] (Some [])
         (Some [sample_pr (ymd 2024 1 1) (Some (ymd 2024 1 4)) (Some (ymd 2024 1 4))])))"
proof -
  have c: "created_at (sample_pr (ymd 2024 1 1) (Some (ymd 2024 1 4)) (Some (ymd 2024 1 4)))
           = ymd 2024 1 1"
    and d: "closed_at (sample_pr (ymd 2024 1 1) (Some (ymd 2024 1 4)) (Some (ymd 2024 1 4)))
           = Some (ymd 2024 1 4)"
    by (simp_all add: sample_pr_def)
  have n: "\<not> truthy_int None" and a: "\<not> truthy_list (Some ([] :: ScyllaPR list))"
    by (simp_all add: truthy_int_def truthy_list_def)
  have t: "timeToClose (sample_pr (ymd 2024 1 1) (Some (ymd 2024 1 4)) (Some (ymd 2024 1 4)))
           = Inr 3"
    by (simp add: timeToClose_def c d diff_three_days)
  show ?thesis
    unfolding printStats_no_period [OF c d n a] t
    by (simp add: TAB_def NL_def)
qed

lemma printStats_period:
  "d \<noteq> 0 \<Longrightarrow>
   printStats today (Some d) openPR abandonedPR mergedPR = ([], Some (KeyError ''days''))"
  by (simp add: printStats_def truthy_int_def format_period raise_def)

text \<open>
  Claim C3 says that \<^verbatim>\<open>printStats\<close> with a non-zero period prints the header "for
  the past N days" and the buckets, without an error. The header is built by
  \<^verbatim>\<open>"for the past {days} days".format(days)\<close>, which passes the number by position
  to a field that asks for the keyword \<^verbatim>\<open>days\<close>: every call with a non-zero period
  ends in KeyError before anything is printed.
\<close>

theorem printStats_period_KeyError:
  "d \<noteq> 0 \<Longrightarrow>
   printStats today (Some d) openPR abandonedPR mergedPR = ([], Some (KeyError ''days''))"
  by (rule printStats_period)

theorem printStats_period_KeyError_witness:
  "printStats (ymd 2024 3 1) (Some 7) []
       (Some []) (Some [sample_pr (ymd 2024 1 1) (Some (ymd 2024 1 4)) (Some (ymd 2024 1 4))])
     = ([], Some (KeyError ''days''))"
proof -
  have h: "(7::int) \<noteq> 0" by simp
  show ?thesis
    using printStats_period_KeyError [OF h] by simp
qed

subsection \<open>Division by zero\<close>

lemma no_zd_then_run:
  "no_zero_division a \<Longrightarrow> no_zero_division b \<Longrightarrow> no_zero_division (then_run a b)"
  by (auto simp: no_zero_division_def then_run_def split: option.splits)

lemma no_zd_print: "r \<noteq> Inl ZeroDivisionError \<Longrightarrow> no_zero_division (print r)"
  by (auto simp: no_zero_division_def print_def split: sum.splits)

lemma no_zd_print_format: "no_zero_division (print (format t args kw))"
  by (simp add: no_zd_print format_not_zde)

lemma no_zd_skip: "no_zero_division skip"
  by (simp add: no_zero_division_def skip_def)

lemma no_zd_raise: "e \<noteq> ZeroDivisionError \<Longrightarrow> no_zero_division (raise e)"
  by (simp add: no_zero_division_def raise_def)

lemma timeToClose_error: "timeToClose p = Inl e \<Longrightarrow> e = TypeError"
  by (auto simp: timeToClose_def split: option.splits)

lemma close_times_error: "close_times ps = Inl e \<Longrightarrow> e = TypeError"
  by (induction ps arbitrary: e)
     (auto simp: bind_def split: sum.splits dest: timeToClose_error)

lemma count_in_error: "count_in bins keys x = Inl e \<Longrightarrow> e \<noteq> ZeroDivisionError"
  by (induction keys) (auto split: if_splits option.splits)

lemma count_all_error: "count_all bins keys xs = Inl e \<Longrightarrow> e \<noteq> ZeroDivisionError"
  by (induction xs arbitrary: bins)
     (auto simp: bind_def split: sum.splits dest: count_in_error)

lemma trim_error: "trim bins keys = Inl e \<Longrightarrow> e \<noteq> ZeroDivisionError"
proof (induction bins keys rule: trim.induct)
  case (1 bins keys)
  then show ?case
    by (subst (asm) (2) trim.simps) (auto split: if_splits option.splits)
qed

lemma no_zd_print_bins: "no_zero_division (print_bins bins ks)"
  by (induction ks)
     (auto simp: no_zd_skip no_zd_then_run no_zd_raise no_zd_print_format split: option.splits)

lemma no_zd_printHistogram:
  assumes ne: "closedPR \<noteq> []"
  shows "no_zero_division (printHistogram closedPR action)"
proof (cases "close_times closedPR")
  case (Inl e)
  then show ?thesis
    using close_times_error [OF Inl] by (simp add: printHistogram_def no_zd_raise)
next
  case data: (Inr data)
  with ne close_times_length [OF data] have dne: "data \<noteq> []" by auto
  then obtain a where av: "average data = Inr a"
    by (auto simp: average_def)
  from dne obtain m where mx: "py_max data = Inr m"
    by (cases data) (auto simp: py_max_def)
  show ?thesis
  proof (cases "count_all (map_of bins_init) sorted_keys_init data")
    case (Inl e)
    then show ?thesis
      using count_all_error [OF Inl] data by (simp add: printHistogram_def no_zd_raise)
  next
    case (Inr bins)
    have "no_zero_division (case trim bins sorted_keys_init of
                              Inl e \<Rightarrow> raise e | Inr keys \<Rightarrow> print_bins bins keys)"
      by (auto split: sum.splits simp: no_zd_print_bins no_zd_raise dest: trim_error)
    then show ?thesis
      using data Inr
      by (simp add: printHistogram_def av mx bind_def no_zd_then_run no_zd_print_format)
  qed
qed

lemma bind_not_zde:
  "r \<noteq> Inl ZeroDivisionError \<Longrightarrow> (\<And>x. f x \<noteq> Inl ZeroDivisionError)
   \<Longrightarrow> bind r f \<noteq> Inl ZeroDivisionError"
  by (cases r) (auto simp: bind_def)

lemma date_sub_days_not_zde: "date_sub_days d n \<noteq> Inl ZeroDivisionError"
  by (simp add: date_sub_days_def Let_def)

lemma needsAttention_not_zde: "needsAttention today p n \<noteq> Inl ZeroDivisionError"
  by (simp add: needsAttention_def bind_not_zde date_sub_days_not_zde)

lemma User_str_not_zde: "User_str u \<noteq> Inl ZeroDivisionError"
  by (simp add: User_str_def split: option.splits)

lemma timeToClose_not_zde: "timeToClose p \<noteq> Inl ZeroDivisionError"
  by (simp add: timeToClose_def split: option.splits)

lemma ScyllaPR_str_not_zde: "ScyllaPR_str today p \<noteq> Inl ZeroDivisionError"
  unfolding ScyllaPR_str_def
  by (intro bind_not_zde User_str_not_zde format_not_zde)
     (simp_all add: format_not_zde bind_not_zde timeToClose_not_zde)

lemma attention_list_not_zde: "attention_list today a xs \<noteq> Inl ZeroDivisionError"
  by (induction xs) (simp_all add: bind_not_zde needsAttention_not_zde ScyllaPR_str_not_zde)

lemma truthy_list_elems: "truthy_list v \<Longrightarrow> elems v \<noteq> []"
  by (auto simp: truthy_list_def elems_def split: option.splits)

lemma no_zd_print_needs: "no_zero_division (print_needs (format t args kw) needs)"
  unfolding print_needs_def
  by (rule no_zd_then_run, rule no_zd_print_format, simp add: no_zero_division_def)

lemma no_zd_printStats:
  "no_zero_division (printStats today days openPR abandonedPR mergedPR)"
proof -
  have tail: "no_zero_division
      (case attention_list today a xs of
         Inl e \<Rightarrow> raise e
       | Inr needs \<Rightarrow> if length needs > 0 then print_needs (format t args kw) needs else skip)"
    for a xs t args kw
    using attention_list_not_zde [of today a xs]
    by (auto split: sum.splits simp: no_zd_raise no_zd_skip no_zd_print_needs)
  have bucket: "no_zero_division
      (if truthy_list v
       then then_run (print (format t args kw)) (printHistogram (elems v) act) else skip)"
    for v t args kw act
    by (simp add: no_zd_skip no_zd_then_run no_zd_print_format no_zd_printHistogram
        truthy_list_elems)
  define period where "period =
    (if truthy_int days then format ''for the past {days} days'' [py_int days] []
     else Inr ''For the entire life of the repository'')"
  have p: "period \<noteq> Inl ZeroDivisionError"
    by (simp add: period_def format_not_zde)
  show ?thesis
  proof (cases period)
    case (Inl e)
    with p have "e \<noteq> ZeroDivisionError" by auto
    with Inl show ?thesis
      by (simp add: printStats_def period_def [symmetric] no_zd_raise)
  next
    case (Inr per)
    show ?thesis
      unfolding printStats_def period_def [symmetric] Inr Let_def sum.case
      by (intro no_zd_then_run bucket tail no_zd_print_format)
  qed
qed

text \<open>
  Claim C9: \<^verbatim>\<open>printHistogram\<close> on an empty sequence fails with ZeroDivisionError,
  at the average, before it prints anything; \<^verbatim>\<open>printStats\<close> never ends in that
  error, whatever its arguments, since it calls \<^verbatim>\<open>printHistogram\<close> on a bucket only
  when the bucket is non-empty.
\<close>

theorem printHistogram_empty_ZeroDivision:
  "printHistogram [] action = ([], Some ZeroDivisionError)
   \<and> snd (printStats today days openPR abandonedPR mergedPR) \<noteq> Some ZeroDivisionError"
proof
  show "printHistogram [] action = ([], Some ZeroDivisionError)"
    by (simp add: printHistogram_def average_def bind_def print_def then_run_def)
  show "snd (printStats today days openPR abandonedPR mergedPR) \<noteq> Some ZeroDivisionError"
    using no_zd_printStats [of today days openPR abandonedPR mergedPR]
    by (simp add: no_zero_division_def)
qed

theorem printHistogram_empty_ZeroDivision_witness:
  "printHistogram [] ''merge'' = ([], Some ZeroDivisionError)
   \<and> printStats (ymd 2024 3 1) None [] (Some []) (Some [])
       = ([NL # ''Currently Open Pull Requests: 0'' @ [NL]], None)"
proof -
  have "printStats (ymd 2024 3 1) None [] (Some []) (Some [])
       = ([NL # ''Currently Open Pull Requests: 0'' @ [NL]], None)"
    unfolding printStats_def format_open
    by (simp add: truthy_int_def truthy_list_def print_def then_run_def skip_def sort_open_def
        show_int_digit digit_char_def)
  then show ?thesis
    using printHistogram_empty_ZeroDivision [of "''merge''" "ymd 2024 3 1" None "[]" "Some []" "Some []"]
    by simp
qed


section \<open>Pagination\<close>

lemma Users_init_cache: "cache (snd (Users_init net us tok w)) = cache w"
  by (induction us arbitrary: w) (simp_all add: split_beta User_init_cache)

lemma Users_init_stderr: "stderr (snd (Users_init net us tok w)) = stderr w"
  by (induction us arbitrary: w) (simp_all add: split_beta User_init_stderr)

lemma Users_init_fst:
  "cache w = cache w' \<Longrightarrow> fst (Users_init net us tok w) = fst (Users_init net us tok w')"
proof (induction us arbitrary: w w')
  case Nil
  show ?case by simp
next
  case (Cons x xs)
  have "cache (snd (User_init net x tok w)) = cache (snd (User_init net x tok w'))"
    using Cons.prems by (simp add: User_init_cache)
  from Cons.IH [OF this] User_init_fst [OF Cons.prems, of net x tok]
  show ?case by (simp add: split_beta)
qed

lemma ScyllaPR_init_cache: "cache (snd (ScyllaPR_init net j tok w)) = cache w"
  by (simp add: ScyllaPR_init_def split_beta Users_init_cache User_init_cache)

lemma ScyllaPR_init_stderr: "stderr (snd (ScyllaPR_init net j tok w)) = stderr w"
  by (simp add: ScyllaPR_init_def split_beta Users_init_stderr User_init_stderr)

text \<open>The record constructed from an API object depends on the state through the cache only.\<close>

lemma ScyllaPR_init_fst:
  assumes "cache w = cache w'"
  shows "fst (ScyllaPR_init net j tok w) = fst (ScyllaPR_init net j tok w')"
proof -
  have "cache (snd (User_init net (r_user_url j) tok w))
      = cache (snd (User_init net (r_user_url j) tok w'))"
    using assms by (simp add: User_init_cache)
  from Users_init_fst [OF this] User_init_fst [OF assms, of net "r_user_url j" tok]
  show ?thesis by (simp add: ScyllaPR_init_def split_beta)
qed

lemma build_records_cache: "cache (snd (build_records net tok crit xs w)) = cache w"
  by (induction xs arbitrary: w) (simp_all add: split_beta ScyllaPR_init_cache)

lemma build_records_stderr: "stderr (snd (build_records net tok crit xs w)) = stderr w"
  by (induction xs arbitrary: w) (simp_all add: split_beta ScyllaPR_init_stderr)

lemma build_records_fst:
  "cache w = cache w0 \<Longrightarrow>
   fst (build_records net tok crit xs w)
     = map (\<lambda>j. fst (ScyllaPR_init net j tok w0)) (filter crit xs)"
proof (induction xs arbitrary: w)
  case Nil
  show ?case by simp
next
  case (Cons x xs)
  have c: "cache (snd (ScyllaPR_init net x tok w)) = cache w0"
    using Cons.prems by (simp add: ScyllaPR_init_cache)
  show ?case
    using Cons.IH [OF c] Cons.IH [OF Cons.prems] ScyllaPR_init_fst [OF Cons.prems, of net x tok]
    by (simp add: split_beta)
qed

lemma fetch_loop_chain:
  "next_chain net u us \<Longrightarrow> cache w = cache w0 \<Longrightarrow>
   map_option fst (fetch_loop net tok crit u ret w)
     = Some (Inr (ret @ map (\<lambda>j. fst (ScyllaPR_init net j tok w0))
                          (filter crit (concat (map (\<lambda>x. json (get_page net x)) (u # us))))))"
proof (induction us arbitrary: u ret w)
  case Nil
  have c: "cache (requests_get u tok w) = cache w0"
    using Nil.prems by (simp add: requests_get_def)
  show ?case
    using Nil.prems(1) build_records_fst [OF c, of net tok crit "json (get_page net u)"]
    by (subst fetch_loop.simps) (simp add: Let_def split_beta)
next
  case (Cons v vs)
  have c: "cache (requests_get u tok w) = cache w0"
    using Cons.prems by (simp add: requests_get_def)
  have c2: "cache (snd (build_records net tok crit (json (get_page net u))
                          (requests_get u tok w))) = cache w0"
    by (simp add: build_records_cache c)
  from Cons.prems(1) have nc: "next_chain net v vs" by simp
  show ?case
    using Cons.prems(1) build_records_fst [OF c, of net tok crit "json (get_page net u)"]
      Cons.IH [OF nc c2, of "ret @ fst (build_records net tok crit (json (get_page net u))
                                          (requests_get u tok w))"]
    by (subst fetch_loop.simps) (simp add: Let_def split_beta)
qed

text \<open>
  Claim C7: on every chain of pages that ends, the fetch returns, and what it returns
  are the records of the accepted API objects, in the order of the pages and, within a
  page, in the order of the page. The predicate is applied to the API object; a record
  is constructed for an accepted object only. On the three sample pages of 2, 2 and 1
  objects this gives 5 records, and 3 when the predicate rejects the objects of the
  second page; no profile is then requested for a rejected object.
\<close>

theorem getGithubData_pages_in_order:
  "next_chain net u us \<Longrightarrow>
   map_option fst (getGithubData net u tok add_criteria w)
     = Some (Inr (map (\<lambda>j. fst (ScyllaPR_init net j tok w))
                      (filter add_criteria
                         (concat (map (\<lambda>x. json (get_page net x)) (u # us))))))"
  using fetch_loop_chain [of net u us w w tok add_criteria "[]"]
  by (simp add: getGithubData_def)

lemma sample_chain: "next_chain sample_net ''p1'' [''p2'', ''p3'']"
  by (simp add: sample_net_def)

lemma sample_record_url: "url (fst (ScyllaPR_init net j tok w)) = r_html_url j"
  by (simp add: ScyllaPR_init_def split_beta)

theorem getGithubData_pages_in_order_witness:
  "map_option (map_sum id (map url) \<circ> fst)
       (getGithubData sample_net ''p1'' ''t'' read_all initial_world)
     = Some (Inr [''a'', ''b'', ''c'', ''d'', ''e''])
   \<and> map_option (map_sum id (map url) \<circ> fst)
       (getGithubData sample_net ''p1'' ''t'' not_page2 initial_world)
     = Some (Inr [''a'', ''b'', ''e''])
   \<and> map_option (map fst \<circ> requests \<circ> snd)
       (getGithubData sample_net ''p1'' ''t'' not_page2 initial_world)
     = Some [''p1'', ''users/ann'', ''users/ann'', ''p2'', ''p3'', ''users/ann'']"
proof -
  have log: "map_option (map fst \<circ> requests \<circ> snd)
       (getGithubData sample_net ''p1'' ''t'' not_page2 initial_world)
     = Some [''p1'', ''users/ann'', ''users/ann'', ''p2'', ''p3'', ''users/ann'']"
    by code_simp
  have split: "map_option (f \<circ> fst) x = map_option f (map_option fst x)"
    for f :: "error + ScyllaPR list \<Rightarrow> error + string list"
    and x :: "((error + ScyllaPR list) \<times> world) option"
    by (simp add: option.map_comp)
  have "map_option (map_sum id (map url) \<circ> fst)
       (getGithubData sample_net ''p1'' ''t'' read_all initial_world)
     = Some (Inr [''a'', ''b'', ''c'', ''d'', ''e''])"
    unfolding split
      getGithubData_pages_in_order [OF sample_chain, of "''t''" read_all initial_world]
    by (simp add: sample_net_def sample_raw_def read_all_def sample_record_url comp_def)
  moreover have "map_option (map_sum id (map url) \<circ> fst)
       (getGithubData sample_net ''p1'' ''t'' not_page2 initial_world)
     = Some (Inr [''a'', ''b'', ''e''])"
    unfolding split
      getGithubData_pages_in_order [OF sample_chain, of "''t''" not_page2 initial_world]
    by (simp add: sample_net_def sample_raw_def not_page2_def sample_record_url comp_def)
  ultimately show ?thesis
    using log by simp
qed

lemma fetch_loop_fail:
  "fail_chain net u us \<Longrightarrow>
   map_option (\<lambda>(r, w'). (r, stderr w')) (fetch_loop net tok crit u ret w)
     = Some (Inl (SystemExit (- 1)), stderr w @ [''Can't contact github API''])"
proof (induction us arbitrary: u ret w)
  case Nil
  then show ?case
    by (subst fetch_loop.simps) (simp add: Let_def requests_get_def)
next
  case (Cons v vs)
  from Cons.prems have fc: "fail_chain net v vs" by simp
  have s: "stderr (snd (build_records net tok crit (json (get_page net u))
                          (requests_get u tok w))) = stderr w"
    by (simp add: build_records_stderr requests_get_def)
  show ?case
    using Cons.prems
      Cons.IH [OF fc, of "ret @ fst (build_records net tok crit (json (get_page net u))
                                        (requests_get u tok w))"
         "snd (build_records net tok crit (json (get_page net u)) (requests_get u tok w))"] s
    by (subst fetch_loop.simps) (simp add: Let_def split_beta)
qed

text \<open>
  Claim C8: when the walk reaches a page that answers with a status other than 200, the
  fetch writes one line to the diagnostic stream and exits with code -1; it returns no
  record, whatever the earlier pages have contributed.
\<close>

theorem getGithubData_failure_exits:
  "fail_chain net u us \<Longrightarrow>
   map_option (\<lambda>(r, w'). (r, stderr w')) (getGithubData net u tok add_criteria w)
     = Some (Inl (SystemExit (- 1)), stderr w @ [''Can't contact github API''])"
  by (simp add: getGithubData_def fetch_loop_fail)

theorem getGithubData_failure_exits_witness:
  "map_option (\<lambda>(r, w'). (r, stderr w'))
       (getGithubData sample_net ''q1'' ''t'' read_all initial_world)
     = Some (Inl (SystemExit (- 1)), [''Can't contact github API''])
   \<and> json (get_page sample_net ''q1'') = [sample_raw ''f'']"
proof -
  have h: "fail_chain sample_net ''q1'' [''q2'']"
    by (simp add: sample_net_def)
  show ?thesis
    using getGithubData_failure_exits [OF h, of "''t''" read_all initial_world]
    by (simp add: initial_world_def sample_net_def)
qed


end
